theory Spec2Isabelle
  imports Main "HOL-Library.AList"
begin

section \<open>Go values, errors and the result of a step\<close>

text \<open>
  A Go \<open>error\<close> is an opaque interface value. The handler builds one itself
  (\<open>errors.New\<close> in the router); every other one comes from a port. The kinds a port
  can report are kept apart so that a theorem can speak about them.
\<close>

datatype error =
    errors_New string
  | NotFound string
  | Conflict string
  | PortError string

text \<open>
  A step function has the Go type \<open>func(...) error\<close>: it returns \<open>nil\<close>, returns an
  error, or panics (an explicit \<open>panic\<close>, a failed type assertion, a nil dereference).
\<close>

datatype outcome = Success | Failure error | Panic string

text \<open>
  The dynamically typed values that \<open>finishSecret\<close> inspects with type assertions.
  A \<open>map[string]any\<close> is an association list whose order is the order in which
  \<open>range\<close> visits the map (Go leaves that order unspecified).
\<close>

datatype any_value =
    AnyNil
  | AnyString string
  | AnySlice "any_value list"
  | AnyMap "(string \<times> any_value) list"

record SecretsmanagerTriggerPayload =
  SecretARN :: string
  Token :: string
  Step :: string

section \<open>The requests and responses of the secret store client\<close>

record GetSecretValueInput =
  gsv_SecretId :: string
  gsv_VersionStage :: "string option"
  gsv_VersionId :: "string option"

text \<open>\<open>SecretString\<close> is a \<open>*string\<close>: \<open>None\<close> is the nil pointer.\<close>

record GetSecretValueOutput =
  SecretString :: "string option"

record PutSecretValueInput =
  psv_SecretId :: string
  psv_ClientRequestToken :: string
  psv_SecretString :: string
  psv_VersionStages :: "string list"

record DescribeSecretInput =
  ds_SecretId :: string

text \<open>
  The describe response of the client has the version table in its typed field
  \<open>VersionIdsToStages\<close> (a \<open>map[string][]string\<close>) and, apart from it, the
  \<open>ResultMetadata\<close> of the request middleware. \<open>finishSecret\<close> reads only
  \<open>ResultMetadata\<close>; \<open>ResultMetadata.Get k\<close> is the lookup of \<open>k\<close>, nil when the
  key is absent.
\<close>

record DescribeSecretOutput =
  VersionIdsToStages :: "(string \<times> string list) list"
  ResultMetadata :: "(string \<times> any_value) list"

record UpdateSecretVersionStageInput =
  usv_SecretId :: string
  usv_VersionStage :: string
  usv_MoveToVersionId :: string
  usv_RemoveFromVersionId :: string

section \<open>Ports\<close>

text \<open>
  \<open>Config\<close> holds the two interfaces \<open>SecretsmanagerClient\<close> and \<open>DBClient\<close>.
  Each method is a function on the state \<open>'s\<close> of the outside world (the store and the
  database), returning its result and the new state. \<open>GenerateSecret\<close> mutates the
  secret object it is given, so it returns the object as well. \<open>Config.SecretObj\<close> is
  a pointer that the steps write through; it lives in the \<open>world\<close> below.
  A call that reports no error gives a response; a nil response shows only as the nil
  \<open>SecretString\<close> of \<open>GetSecretValueOutput\<close>.
\<close>

record ('s, 'a) Config =
  GetSecretValue :: "GetSecretValueInput \<Rightarrow> 's \<Rightarrow> (error + GetSecretValueOutput) \<times> 's"
  PutSecretValue :: "PutSecretValueInput \<Rightarrow> 's \<Rightarrow> error option \<times> 's"
  DescribeSecret :: "DescribeSecretInput \<Rightarrow> 's \<Rightarrow> (error + DescribeSecretOutput) \<times> 's"
  UpdateSecretVersionStage :: "UpdateSecretVersionStageInput \<Rightarrow> 's \<Rightarrow> error option \<times> 's"
  SetSecret :: "'a \<Rightarrow> 's \<Rightarrow> error option \<times> 's"
  TryConnection :: "'a \<Rightarrow> 's \<Rightarrow> error option \<times> 's"
  GenerateSecret :: "'a \<Rightarrow> 's \<Rightarrow> (error option \<times> 'a) \<times> 's"

text \<open>
  \<open>encoding/json\<close> on the dynamic type behind \<open>SecretObj\<close>. \<open>Unmarshal\<close> decodes
  into an existing object and may leave it changed even when it fails.
\<close>

record 'a json =
  Marshal :: "'a \<Rightarrow> error + string"
  Unmarshal :: "string \<Rightarrow> 'a \<Rightarrow> error option \<times> 'a"

text \<open>The port calls a step makes, in order: a ghost log beside the state.\<close>

datatype call =
    GetSecretValue_call GetSecretValueInput
  | PutSecretValue_call PutSecretValueInput
  | DescribeSecret_call DescribeSecretInput
  | UpdateSecretVersionStage_call UpdateSecretVersionStageInput
  | SetSecret_call
  | TryConnection_call
  | GenerateSecret_call

record ('s, 'a) world =
  ports :: 's
  SecretObj :: 'a
  trace :: "call list"

definition do_GetSecretValue ::
  "('s, 'a) Config \<Rightarrow> GetSecretValueInput \<Rightarrow> ('s, 'a) world
    \<Rightarrow> (error + GetSecretValueOutput) \<times> ('s, 'a) world" where
  "do_GetSecretValue cfg i w =
     (case GetSecretValue cfg i (ports w) of
        (r, s) \<Rightarrow> (r, w\<lparr>ports := s, trace := trace w @ [GetSecretValue_call i]\<rparr>))"

definition do_PutSecretValue ::
  "('s, 'a) Config \<Rightarrow> PutSecretValueInput \<Rightarrow> ('s, 'a) world
    \<Rightarrow> error option \<times> ('s, 'a) world" where
  "do_PutSecretValue cfg i w =
     (case PutSecretValue cfg i (ports w) of
        (r, s) \<Rightarrow> (r, w\<lparr>ports := s, trace := trace w @ [PutSecretValue_call i]\<rparr>))"

definition do_DescribeSecret ::
  "('s, 'a) Config \<Rightarrow> DescribeSecretInput \<Rightarrow> ('s, 'a) world
    \<Rightarrow> (error + DescribeSecretOutput) \<times> ('s, 'a) world" where
  "do_DescribeSecret cfg i w =
     (case DescribeSecret cfg i (ports w) of
        (r, s) \<Rightarrow> (r, w\<lparr>ports := s, trace := trace w @ [DescribeSecret_call i]\<rparr>))"

definition do_UpdateSecretVersionStage ::
  "('s, 'a) Config \<Rightarrow> UpdateSecretVersionStageInput \<Rightarrow> ('s, 'a) world
    \<Rightarrow> error option \<times> ('s, 'a) world" where
  "do_UpdateSecretVersionStage cfg i w =
     (case UpdateSecretVersionStage cfg i (ports w) of
        (r, s) \<Rightarrow> (r, w\<lparr>ports := s, trace := trace w @ [UpdateSecretVersionStage_call i]\<rparr>))"

definition do_GenerateSecret ::
  "('s, 'a) Config \<Rightarrow> ('s, 'a) world \<Rightarrow> error option \<times> ('s, 'a) world" where
  "do_GenerateSecret cfg w =
     (case GenerateSecret cfg (SecretObj w) (ports w) of
        ((r, obj), s) \<Rightarrow>
          (r, w\<lparr>ports := s, SecretObj := obj, trace := trace w @ [GenerateSecret_call]\<rparr>))"

definition of_error :: "error option \<Rightarrow> outcome" where
  "of_error e = (case e of None \<Rightarrow> Success | Some err \<Rightarrow> Failure err)"

section \<open>The handler\<close>

text \<open>
  \<open>extractSecretObject\<close> dereferences \<open>v.SecretString\<close> and unmarshals into the
  secret object. The first component is \<open>None\<close> for a nil-pointer panic.
\<close>

definition extractSecretObject ::
  "'a json \<Rightarrow> GetSecretValueOutput \<Rightarrow> 'a \<Rightarrow> (error option \<times> 'a) option" where
  "extractSecretObject J v secret =
     (case SecretString v of
        None \<Rightarrow> None
      | Some str \<Rightarrow> Some (Unmarshal J str secret))"

definition serialiseSecret :: "'a json \<Rightarrow> 'a \<Rightarrow> error + string" where
  "serialiseSecret J secret =
     (case Marshal J secret of
        Inl err \<Rightarrow> Inl err
      | Inr out \<Rightarrow> Inr out)"

definition createSecret ::
  "'a json \<Rightarrow> ('s, 'a) Config \<Rightarrow> SecretsmanagerTriggerPayload \<Rightarrow> ('s, 'a) world
    \<Rightarrow> outcome \<times> ('s, 'a) world" where
  "createSecret J cfg event w0 =
     (case do_GetSecretValue cfg
             \<lparr>gsv_SecretId = SecretARN event, gsv_VersionStage = Some ''AWSCURRENT'',
              gsv_VersionId = None\<rparr> w0 of
        (Inl err, w1) \<Rightarrow> (Failure err, w1)
      | (Inr v, w1) \<Rightarrow>
          (case do_GetSecretValue cfg
                  \<lparr>gsv_SecretId = SecretARN event, gsv_VersionStage = Some ''AWSPENDING'',
                   gsv_VersionId = Some (Token event)\<rparr> w1 of
             (Inr _, w2) \<Rightarrow> (Success, w2)
           | (Inl _, w2) \<Rightarrow>
               (case extractSecretObject J v (SecretObj w2) of
                  None \<Rightarrow> (Panic ''invalid memory address or nil pointer dereference'', w2)
                | Some (Some err, obj) \<Rightarrow> (Failure err, w2\<lparr>SecretObj := obj\<rparr>)
                | Some (None, obj) \<Rightarrow>
                    (case do_GenerateSecret cfg (w2\<lparr>SecretObj := obj\<rparr>) of
                       (Some err, w3) \<Rightarrow> (Failure err, w3)
                     | (None, w3) \<Rightarrow>
                         (case serialiseSecret J (SecretObj w3) of
                            Inl err \<Rightarrow> (Failure err, w3)
                          | Inr out \<Rightarrow>
                              (case do_PutSecretValue cfg
                                      \<lparr>psv_SecretId = SecretARN event,
                                       psv_ClientRequestToken = Token event,
                                       psv_SecretString = out,
                                       psv_VersionStages = [''AWSPENDING'']\<rparr> w3 of
                                 (e, w4) \<Rightarrow> (of_error e, w4)))))))"

definition setSecret ::
  "('s, 'a) Config \<Rightarrow> SecretsmanagerTriggerPayload \<Rightarrow> ('s, 'a) world
    \<Rightarrow> outcome \<times> ('s, 'a) world" where
  "setSecret cfg event w = (Panic ''todo'', w)"

definition testSecret ::
  "('s, 'a) Config \<Rightarrow> SecretsmanagerTriggerPayload \<Rightarrow> ('s, 'a) world
    \<Rightarrow> outcome \<times> ('s, 'a) world" where
  "testSecret cfg event w = (Panic ''implement me'', w)"

text \<open>
  The two nested \<open>range\<close> loops of \<open>finishSecret\<close>. A scan ends by the early
  \<open>return nil\<close>, by a failed type assertion, or by running through with the value of
  \<open>currentVersion\<close>.
\<close>

datatype scan_result = Returned | Asserted string | Scanned string

fun scan_stages :: "string \<Rightarrow> string \<Rightarrow> any_value list \<Rightarrow> string \<Rightarrow> scan_result" where
  "scan_stages token version [] currentVersion = Scanned currentVersion"
| "scan_stages token version (stage # stages) currentVersion =
     (case stage of
        AnyString s \<Rightarrow>
          (if ''AWSCURRENT'' = s
           then (if version = token then Returned
                 else scan_stages token version stages version)
           else scan_stages token version stages currentVersion)
      | _ \<Rightarrow> Asserted ''interface conversion: interface {} is not string'')"

fun scan_versions :: "string \<Rightarrow> (string \<times> any_value) list \<Rightarrow> string \<Rightarrow> scan_result" where
  "scan_versions token [] currentVersion = Scanned currentVersion"
| "scan_versions token ((version, stages) # vv) currentVersion =
     (case stages of
        AnySlice ss \<Rightarrow>
          (case scan_stages token version ss currentVersion of
             Scanned cur \<Rightarrow> scan_versions token vv cur
           | r \<Rightarrow> r)
      | _ \<Rightarrow> Asserted ''interface conversion: interface {} is not []interface {}'')"

text \<open>
  \<open>v.ResultMetadata.Get("VersionIdsToStages").(map[string]any)\<close> in its comma-ok form:
  when the value is absent or of another type the loops are skipped.
\<close>

definition scan_metadata :: "string \<Rightarrow> (string \<times> any_value) list \<Rightarrow> scan_result" where
  "scan_metadata token md =
     (case map_of md ''VersionIdsToStages'' of
        Some (AnyMap vv) \<Rightarrow> scan_versions token vv ''''
      | _ \<Rightarrow> Scanned '''')"

definition finishSecret ::
  "('s, 'a) Config \<Rightarrow> SecretsmanagerTriggerPayload \<Rightarrow> ('s, 'a) world
    \<Rightarrow> outcome \<times> ('s, 'a) world" where
  "finishSecret cfg event w0 =
     (case do_DescribeSecret cfg \<lparr>ds_SecretId = SecretARN event\<rparr> w0 of
        (Inl err, w1) \<Rightarrow> (Failure err, w1)
      | (Inr v, w1) \<Rightarrow>
          (case scan_metadata (Token event) (ResultMetadata v) of
             Returned \<Rightarrow> (Success, w1)
           | Asserted msg \<Rightarrow> (Panic msg, w1)
           | Scanned currentVersion \<Rightarrow>
               (case do_UpdateSecretVersionStage cfg
                       \<lparr>usv_SecretId = SecretARN event,
                        usv_VersionStage = ''AWSCURRENT'',
                        usv_MoveToVersionId = Token event,
                        usv_RemoveFromVersionId = currentVersion\<rparr> w1 of
                  (e, w2) \<Rightarrow> (of_error e, w2))))"

definition router ::
  "'a json \<Rightarrow> ('s, 'a) Config \<Rightarrow> SecretsmanagerTriggerPayload \<Rightarrow> ('s, 'a) world
    \<Rightarrow> outcome \<times> ('s, 'a) world" where
  "router J cfg event w =
     (if Step event = ''createSecret'' then createSecret J cfg event w
      else if Step event = ''setSecret'' then setSecret cfg event w
      else if Step event = ''testSecret'' then testSecret cfg event w
      else if Step event = ''finishSecret'' then finishSecret cfg event w
      else (Failure (errors_New (''unknown step '' @ Step event)), w))"

text \<open>The invoker delivers one request after another; a panic ends only its own invocation.\<close>

fun run ::
  "'a json \<Rightarrow> ('s, 'a) Config \<Rightarrow> SecretsmanagerTriggerPayload list \<Rightarrow> ('s, 'a) world
    \<Rightarrow> ('s, 'a) world" where
  "run J cfg [] w = w"
| "run J cfg (event # events) w = run J cfg events (snd (router J cfg event w))"

section \<open>The secret store\<close>

text \<open>
  Modelled from the spec: the service behind \<open>SecretsmanagerClient\<close>, of which the
  repository has only the interface and a test double whose \<open>DescribeSecret\<close> and
  \<open>UpdateSecretVersionStage\<close> are not written. The operations are those of the
  Secret Store Port: a version table for one secret, each version with its content and
  its staging labels.
\<close>

record secret_version =
  content :: string
  stages :: "string list"

type_synonym store = "(string \<times> secret_version) list"

definition stage_holders :: "string \<Rightarrow> store \<Rightarrow> string list" where
  "stage_holders stage st = map fst (filter (\<lambda>p. stage \<in> set (stages (snd p))) st)"

text \<open>
  Modelled from the spec: \<open>readByStage\<close> gives the envelope bytes and the version id,
  and fails with \<open>NotFound\<close> if no version carries the stage.
\<close>

definition readByStage :: "store \<Rightarrow> string \<Rightarrow> error + (string \<times> string)" where
  "readByStage st stage =
     (case find (\<lambda>p. stage \<in> set (stages (snd p))) st of
        None \<Rightarrow> Inl (NotFound stage)
      | Some (vid, v) \<Rightarrow> Inr (content v, vid))"

text \<open>
  Modelled from the spec: \<open>readByVersion\<close> fails with \<open>NotFound\<close> if that exact
  (version, stage) pair does not exist.
\<close>

definition readByVersion :: "store \<Rightarrow> string \<Rightarrow> string \<Rightarrow> error + string" where
  "readByVersion st vid stage =
     (case map_of st vid of
        None \<Rightarrow> Inl (NotFound vid)
      | Some v \<Rightarrow> if stage \<in> set (stages v) then Inr (content v) else Inl (NotFound vid))"

definition add_stage :: "string \<Rightarrow> secret_version \<Rightarrow> secret_version" where
  "add_stage stage v =
     (if stage \<in> set (stages v) then v else v\<lparr>stages := stages v @ [stage]\<rparr>)"

definition remove_stage :: "string \<Rightarrow> secret_version \<Rightarrow> secret_version" where
  "remove_stage stage v = v\<lparr>stages := removeAll stage (stages v)\<rparr>"

text \<open>
  Modelled from the spec: \<open>writePending\<close> creates or overwrites the version identified
  by the token, labeling it \<open>AWSPENDING\<close>; an upsert. The labels the version already
  has stay, as in the test double's \<open>PutSecretValue\<close>.
\<close>

definition writePending :: "store \<Rightarrow> string \<Rightarrow> string \<Rightarrow> store" where
  "writePending st token bytes =
     (case map_of st token of
        None \<Rightarrow> st @ [(token, \<lparr>content = bytes, stages = [''AWSPENDING'']\<rparr>)]
      | Some _ \<Rightarrow>
          AList.map_entry token (\<lambda>v. add_stage ''AWSPENDING'' (v\<lparr>content := bytes\<rparr>)) st)"

text \<open>Modelled from the spec: \<open>describeVersions\<close>, the mapping from version id to labels.\<close>

definition describeVersions :: "store \<Rightarrow> (string \<times> string list) list" where
  "describeVersions st = map (\<lambda>p. (fst p, stages (snd p))) st"

text \<open>
  Modelled from the spec: \<open>promote\<close> atomically moves \<open>AWSCURRENT\<close> from
  \<open>fromVersionId\<close> to \<open>toVersionId\<close>, which keeps \<open>AWSPENDING\<close>, and fails with
  \<open>Conflict\<close> if \<open>fromVersionId\<close> does not hold \<open>AWSCURRENT\<close>. The label is never
  removed without being granted (Invariant I1), so a \<open>toVersionId\<close> that does not
  exist is \<open>NotFound\<close> and changes nothing.
\<close>

definition promote :: "store \<Rightarrow> string \<Rightarrow> string \<Rightarrow> error option \<times> store" where
  "promote st toVersionId fromVersionId =
     (case map_of st fromVersionId of
        None \<Rightarrow> (Some (Conflict fromVersionId), st)
      | Some vf \<Rightarrow>
          if ''AWSCURRENT'' \<notin> set (stages vf) then (Some (Conflict fromVersionId), st)
          else (case map_of st toVersionId of
                  None \<Rightarrow> (Some (NotFound toVersionId), st)
                | Some _ \<Rightarrow>
                    (None,
                     AList.map_entry toVersionId (add_stage ''AWSCURRENT'')
                       (AList.map_entry fromVersionId (remove_stage ''AWSCURRENT'') st))))"

text \<open>
  Modelled from the spec: the wire calls of the Secret Store Port (get by stage,
  optionally by exact version and stage; put with a stage label; describe; update
  stage), on top of the port operations. The describe response carries the version
  table in its field \<open>VersionIdsToStages\<close>, the structured result of
  \<open>describeVersions\<close>; its metadata has no entry for the table.
  The outside world is the store together with the state \<open>'d\<close> of the backing resource,
  on which the three \<open>DBClient\<close> methods act.
\<close>

definition store_GetSecretValue ::
  "GetSecretValueInput \<Rightarrow> store \<Rightarrow> error + GetSecretValueOutput" where
  "store_GetSecretValue i st =
     (let stage = (case gsv_VersionStage i of None \<Rightarrow> ''AWSCURRENT'' | Some s \<Rightarrow> s)
      in case gsv_VersionId i of
           None \<Rightarrow>
             (case readByStage st stage of
                Inl err \<Rightarrow> Inl err
              | Inr (bytes, _) \<Rightarrow> Inr \<lparr>SecretString = Some bytes\<rparr>)
         | Some vid \<Rightarrow>
             (case readByVersion st vid stage of
                Inl err \<Rightarrow> Inl err
              | Inr bytes \<Rightarrow> Inr \<lparr>SecretString = Some bytes\<rparr>))"

definition store_PutSecretValue :: "PutSecretValueInput \<Rightarrow> store \<Rightarrow> error option \<times> store" where
  "store_PutSecretValue i st =
     (if psv_VersionStages i = [''AWSPENDING'']
      then (None, writePending st (psv_ClientRequestToken i) (psv_SecretString i))
      else (Some (PortError ''unsupported staging labels''), st))"

text \<open>
  A version table as a dynamically typed value, the form in which the scan of
  \<open>finishSecret\<close> can read one.
\<close>

definition stage_table :: "(string \<times> string list) list \<Rightarrow> any_value" where
  "stage_table t = AnyMap (map (\<lambda>p. (fst p, AnySlice (map AnyString (snd p)))) t)"

definition store_DescribeSecret :: "store \<Rightarrow> DescribeSecretOutput" where
  "store_DescribeSecret st =
     \<lparr>VersionIdsToStages = describeVersions st, ResultMetadata = []\<rparr>"

definition store_UpdateSecretVersionStage ::
  "UpdateSecretVersionStageInput \<Rightarrow> store \<Rightarrow> error option \<times> store" where
  "store_UpdateSecretVersionStage i st =
     (if usv_VersionStage i = ''AWSCURRENT''
      then promote st (usv_MoveToVersionId i) (usv_RemoveFromVersionId i)
      else (Some (PortError ''unsupported staging label''), st))"

definition store_Config ::
  "('a \<Rightarrow> 'd \<Rightarrow> error option \<times> 'd) \<Rightarrow> ('a \<Rightarrow> 'd \<Rightarrow> error option \<times> 'd)
    \<Rightarrow> ('a \<Rightarrow> 'd \<Rightarrow> (error option \<times> 'a) \<times> 'd) \<Rightarrow> (store \<times> 'd, 'a) Config" where
  "store_Config db_set db_try db_generate =
     \<lparr>GetSecretValue = (\<lambda>i s. (store_GetSecretValue i (fst s), s)),
      PutSecretValue =
        (\<lambda>i s. case store_PutSecretValue i (fst s) of (e, st) \<Rightarrow> (e, (st, snd s))),
      DescribeSecret = (\<lambda>i s. (Inr (store_DescribeSecret (fst s)), s)),
      UpdateSecretVersionStage =
        (\<lambda>i s. case store_UpdateSecretVersionStage i (fst s) of (e, st) \<Rightarrow> (e, (st, snd s))),
      SetSecret = (\<lambda>obj s. case db_set obj (snd s) of (e, d) \<Rightarrow> (e, (fst s, d))),
      TryConnection = (\<lambda>obj s. case db_try obj (snd s) of (e, d) \<Rightarrow> (e, (fst s, d))),
      GenerateSecret =
        (\<lambda>obj s. case db_generate obj (snd s) of (r, d) \<Rightarrow> (r, (fst s, d)))\<rparr>"

section \<open>Fixtures\<close>

text \<open>
  A secret with a password and one more field, a codec for it that writes the two fields
  with a colon between them, and a generator that appends to the password: the smallest
  instance of the three parameters, used to run the handler on concrete stores.
\<close>

definition pair_json :: "(string \<times> string) json" where
  "pair_json =
     \<lparr>Marshal = (\<lambda>obj. Inr (fst obj @ '':'' @ snd obj)),
      Unmarshal = (\<lambda>str obj.
        if CHR '':'' \<in> set str
        then (None, (takeWhile (\<lambda>c. c \<noteq> CHR '':'') str,
                     drop 1 (dropWhile (\<lambda>c. c \<noteq> CHR '':'') str)))
        else (Some (PortError ''unexpected end of input''), obj))\<rparr>"

definition pair_generate ::
  "(string \<times> string) \<Rightarrow> unit \<Rightarrow> (error option \<times> (string \<times> string)) \<times> unit" where
  "pair_generate obj d = ((None, (fst obj @ ''+'', snd obj)), d)"

definition pair_apply :: "(string \<times> string) \<Rightarrow> unit \<Rightarrow> error option \<times> unit" where
  "pair_apply obj d = (None, d)"

definition pair_Config :: "(store \<times> unit, string \<times> string) Config" where
  "pair_Config = store_Config pair_apply pair_apply pair_generate"

definition pair_world :: "store \<Rightarrow> (store \<times> unit, string \<times> string) world" where
  "pair_world st = \<lparr>ports = (st, ()), SecretObj = ([], []), trace = []\<rparr>"

text \<open>Scenario C of the spec: \<open>old\<close> is current, \<open>T1\<close> is pending.\<close>

definition store_C :: store where
  "store_C =
     [(''old'', \<lparr>content = ''P0:dev'', stages = [''AWSCURRENT'']\<rparr>),
      (''T1'', \<lparr>content = ''P1:dev'', stages = [''AWSPENDING'']\<rparr>)]"

text \<open>Scenario A of the spec: only the current version exists.\<close>

definition store_A :: store where
  "store_A = [(''old'', \<lparr>content = ''P0:dev'', stages = [''AWSCURRENT'']\<rparr>)]"

text \<open>A store in which no version is current: only the pending \<open>T1\<close>.\<close>

definition store_P :: store where
  "store_P = [(''T1'', \<lparr>content = ''P1:dev'', stages = [''AWSPENDING'']\<rparr>)]"

text \<open>Scenario D of the spec: the store after \<open>T1\<close> has been promoted.\<close>

definition store_D :: store where
  "store_D =
     [(''old'', \<lparr>content = ''P0:dev'', stages = []\<rparr>),
      (''T1'', \<lparr>content = ''P1:dev'', stages = [''AWSPENDING'', ''AWSCURRENT'']\<rparr>)]"

text \<open>
  A client whose reads by version id are refused for a reason other than absence, with
  an error kind that is not \<open>NotFound\<close>; everything else is the store.
\<close>

definition denied_Config :: "(store \<times> unit, string \<times> string) Config" where
  "denied_Config =
     pair_Config\<lparr>GetSecretValue :=
       (\<lambda>i s. if gsv_VersionId i = None then GetSecretValue pair_Config i s
              else (Inl (PortError ''AccessDeniedException''), s))\<rparr>"

text \<open>
  The codec of a secret type whose one field \<open>encoding/json\<close> does not see (a Go
  struct field that is not exported): every value is written as the empty object, and
  reading the empty object leaves the target as it is.
\<close>

definition unexported_json :: "string json" where
  "unexported_json =
     \<lparr>Marshal = (\<lambda>obj. Inr ''{}''),
      Unmarshal = (\<lambda>str obj.
        if str = ''{}'' then (None, obj)
        else (Some (PortError ''invalid character''), obj))\<rparr>"

text \<open>Scenario B of the spec: the store after \<open>createSecret\<close> for \<open>T1\<close> on Scenario A.\<close>

definition store_B :: store where
  "store_B =
     [(''old'', \<lparr>content = ''P0:dev'', stages = [''AWSCURRENT'']\<rparr>),
      (''T1'', \<lparr>content = ''P0+:dev'', stages = [''AWSPENDING'']\<rparr>)]"

text \<open>
  A secret whose one field the codec does not see, kept in the secret object; its
  generator appends to that field. The store holds the current version as the codec
  writes it.
\<close>

definition hidden_generate :: "string \<Rightarrow> unit \<Rightarrow> (error option \<times> string) \<times> unit" where
  "hidden_generate obj d = ((None, obj @ ''+''), d)"

definition hidden_apply :: "string \<Rightarrow> unit \<Rightarrow> error option \<times> unit" where
  "hidden_apply obj d = (None, d)"

definition hidden_Config :: "(store \<times> unit, string) Config" where
  "hidden_Config = store_Config hidden_apply hidden_apply hidden_generate"

definition store_U :: store where
  "store_U = [(''old'', \<lparr>content = ''{}'', stages = [''AWSCURRENT'']\<rparr>)]"

definition hidden_world :: "(store \<times> unit, string) world" where
  "hidden_world = \<lparr>ports = (store_U, ()), SecretObj = ''P0'', trace = []\<rparr>"

definition request :: "string \<Rightarrow> string \<Rightarrow> SecretsmanagerTriggerPayload" where
  "request step token = \<lparr>SecretARN = ''arn:secret'', Token = token, Step = step\<rparr>"

section \<open>The scan of the version table\<close>

lemma scan_stages_strings:
  "scan_stages token version (map AnyString ss) cur =
     (if ''AWSCURRENT'' \<in> set ss
      then (if version = token then Returned else Scanned version)
      else Scanned cur)"
  by (induction ss arbitrary: cur) auto

section \<open>The two steps that are not written\<close>

text \<open>
  C6. The claim: \<open>setSecret\<close> reads the \<open>AWSPENDING\<close> envelope of the token, calls
  \<open>DBClient.SetSecret\<close> with it and returns that call's result. The function in the
  source is \<open>panic("todo")\<close>: for every configuration, request and world it panics,
  and neither the store nor the backing resource is called (the world, with its log of
  port calls, is the one it was given).
\<close>

theorem setSecret_is_stub:
  "setSecret cfg event w = (Panic ''todo'', w)"
  by (simp add: setSecret_def)

text \<open>
  C7. The claim: \<open>testSecret\<close> reads the \<open>AWSPENDING\<close> envelope, calls
  \<open>TryConnection\<close> with it, fails exactly when the connection fails, and never writes
  to the store. The function in the source is \<open>panic("implement me")\<close>: it panics on
  every input without reading the envelope or trying a connection. It writes nothing,
  which is the one part of the claim that holds.
\<close>

theorem testSecret_is_stub:
  "testSecret cfg event w = (Panic ''implement me'', w)"
  by (simp add: testSecret_def)

section \<open>The step router\<close>

text \<open>
  C8. The router sends each of the four recognised step names to the step function of
  that name, and for every other step string it fails with the error
  \<open>unknown step\<close> followed by the offending string, making no port call of its own:
  the world it returns is the one it was given.
\<close>

theorem router_dispatch:
  "(Step event = ''createSecret'' \<longrightarrow> router J cfg event w = createSecret J cfg event w) \<and>
   (Step event = ''setSecret'' \<longrightarrow> router J cfg event w = setSecret cfg event w) \<and>
   (Step event = ''testSecret'' \<longrightarrow> router J cfg event w = testSecret cfg event w) \<and>
   (Step event = ''finishSecret'' \<longrightarrow> router J cfg event w = finishSecret cfg event w) \<and>
   (Step event \<notin> {''createSecret'', ''setSecret'', ''testSecret'', ''finishSecret''} \<longrightarrow>
      router J cfg event w = (Failure (errors_New (''unknown step '' @ Step event)), w))"
  by (simp add: router_def)

text \<open>Scenario E of the spec: the step \<open>rotateSecret\<close>.\<close>

theorem router_dispatch_witness:
  "router pair_json pair_Config (request ''rotateSecret'' ''T1'') (pair_world store_C)
     = (Failure (errors_New ''unknown step rotateSecret''), pair_world store_C)"
  using router_dispatch [of "request ''rotateSecret'' ''T1''" pair_json pair_Config
      "pair_world store_C"]
  by (simp add: request_def)

lemma scan_versions_table:
  "scan_versions token (map (\<lambda>p. (fst p, AnySlice (map AnyString (snd p)))) t) cur =
     (if token \<in> set (map fst (filter (\<lambda>p. ''AWSCURRENT'' \<in> set (snd p)) t)) then Returned
      else Scanned (last (cur # map fst (filter (\<lambda>p. ''AWSCURRENT'' \<in> set (snd p)) t))))"
  by (induction t arbitrary: cur) (auto simp: scan_stages_strings filter_empty_conv)

text \<open>
  With a client that does put the version table into the metadata, the scan of
  \<open>finishSecret\<close> finds the token and returns before any update.
\<close>

lemma finishSecret_guard:
  assumes "DescribeSecret cfg \<lparr>ds_SecretId = SecretARN event\<rparr> (ports w) = (Inr v, s1)"
    and "map_of (ResultMetadata v) ''VersionIdsToStages'' = Some (stage_table t)"
    and "(Token event, ss) \<in> set t" and "''AWSCURRENT'' \<in> set ss"
  shows "finishSecret cfg event w =
     (Success, w\<lparr>ports := s1,
                 trace := trace w @ [DescribeSecret_call \<lparr>ds_SecretId = SecretARN event\<rparr>]\<rparr>)"
proof -
  have "Token event \<in> set (map fst (filter (\<lambda>p. ''AWSCURRENT'' \<in> set (snd p)) t))"
    using assms(3,4) by force
  then have "scan_metadata (Token event) (ResultMetadata v) = Returned"
    using assms(2) by (simp add: scan_metadata_def stage_table_def scan_versions_table)
  then show ?thesis
    using assms(1) by (simp add: finishSecret_def do_DescribeSecret_def)
qed

section \<open>Labels in the store\<close>

lemma holders_map_entry_same:
  "(\<And>v. stage \<in> set (stages (f v)) \<longleftrightarrow> stage \<in> set (stages v)) \<Longrightarrow>
   stage_holders stage (AList.map_entry k f st) = stage_holders stage st"
  by (induction st) (auto simp: stage_holders_def)

lemma holders_writePending:
  "stage \<noteq> ''AWSPENDING'' \<Longrightarrow>
   stage_holders stage (writePending st token bytes) = stage_holders stage st"
proof (cases "map_of st token")
  case None
  assume "stage \<noteq> ''AWSPENDING''"
  with None show ?thesis by (simp add: writePending_def stage_holders_def)
next
  case (Some v)
  assume ne: "stage \<noteq> ''AWSPENDING''"
  have "stage_holders stage
          (AList.map_entry token (\<lambda>v. add_stage ''AWSPENDING'' (v\<lparr>content := bytes\<rparr>)) st)
        = stage_holders stage st"
    by (rule holders_map_entry_same) (use ne in \<open>auto simp: add_stage_def\<close>)
  with Some show ?thesis by (simp add: writePending_def)
qed

lemma holders_nonempty_of_lookup:
  "map_of st k = Some v \<Longrightarrow> stage \<in> set (stages v) \<Longrightarrow> stage_holders stage st \<noteq> []"
  by (induction st) (auto simp: stage_holders_def split: if_splits)

lemma holders_remove:
  "length (stage_holders stage st) \<le> 1 \<Longrightarrow> map_of st k = Some v \<Longrightarrow>
   stage \<in> set (stages v) \<Longrightarrow>
   stage_holders stage (AList.map_entry k (remove_stage stage) st) = []"
proof (induction st)
  case Nil
  then show ?case by simp
next
  case (Cons p st)
  show ?case
  proof (cases "fst p = k")
    case True
    with Cons.prems have "stage \<in> set (stages (snd p))" by (cases p) simp
    with Cons.prems(1) have "stage_holders stage st = []"
      by (simp add: stage_holders_def)
    with True show ?thesis
      by (cases p) (simp add: stage_holders_def remove_stage_def)
  next
    case False
    with Cons.prems have look: "map_of st k = Some v" by (cases p) simp
    then have "stage_holders stage st \<noteq> []"
      using Cons.prems(3) by (rule holders_nonempty_of_lookup)
    with Cons.prems(1) have nohead: "stage \<notin> set (stages (snd p))"
      by (auto simp: stage_holders_def)
    with Cons.prems(1) have "length (stage_holders stage st) \<le> 1"
      by (simp add: stage_holders_def)
    from Cons.IH [OF this look Cons.prems(3)] False nohead show ?thesis
      by (cases p) (simp add: stage_holders_def)
  qed
qed

lemma holders_add:
  "stage_holders stage st = [] \<Longrightarrow> map_of st k = Some v \<Longrightarrow>
   stage_holders stage (AList.map_entry k (add_stage stage) st) = [k]"
  by (induction st) (auto simp: stage_holders_def add_stage_def split: if_splits)

lemma promote_cases:
  "promote st to from = (e, st') \<Longrightarrow>
     (e \<noteq> None \<and> st' = st) \<or>
     (e = None \<and> (\<exists>vf vt. map_of st from = Some vf \<and> ''AWSCURRENT'' \<in> set (stages vf) \<and>
         map_of st to = Some vt \<and>
         st' = AList.map_entry to (add_stage ''AWSCURRENT'')
                 (AList.map_entry from (remove_stage ''AWSCURRENT'') st)))"
  by (auto simp: promote_def split: option.splits if_splits)

lemma promote_holders:
  assumes "promote st to from = (None, st')"
    and "length (stage_holders ''AWSCURRENT'' st) \<le> 1"
  shows "stage_holders ''AWSCURRENT'' st' = [to]"
proof -
  from promote_cases [OF assms(1)] obtain vf vt where
    f: "map_of st from = Some vf" "''AWSCURRENT'' \<in> set (stages vf)"
    and t: "map_of st to = Some vt"
    and st': "st' = AList.map_entry to (add_stage ''AWSCURRENT'')
                 (AList.map_entry from (remove_stage ''AWSCURRENT'') st)"
    by auto
  have empty: "stage_holders ''AWSCURRENT''
                 (AList.map_entry from (remove_stage ''AWSCURRENT'') st) = []"
    using assms(2) f by (rule holders_remove)
  have "\<exists>v. map_of (AList.map_entry from (remove_stage ''AWSCURRENT'') st) to = Some v"
    using t f by (simp add: map_of_map_entry)
  then obtain v where
    "map_of (AList.map_entry from (remove_stage ''AWSCURRENT'') st) to = Some v" ..
  from holders_add [OF empty this] st' show ?thesis by simp
qed

lemma scan_store:
  "scan_metadata token (ResultMetadata (store_DescribeSecret st)) = Scanned ''''"
  by (simp add: scan_metadata_def store_DescribeSecret_def)

lemma do_GetSecretValue_store:
  "do_GetSecretValue (store_Config a b c) i w =
     (store_GetSecretValue i (fst (ports w)), w\<lparr>trace := trace w @ [GetSecretValue_call i]\<rparr>)"
  by (simp add: do_GetSecretValue_def store_Config_def)

lemma do_DescribeSecret_store:
  "do_DescribeSecret (store_Config a b c) i w =
     (Inr (store_DescribeSecret (fst (ports w))),
      w\<lparr>trace := trace w @ [DescribeSecret_call i]\<rparr>)"
  by (simp add: do_DescribeSecret_def store_Config_def)

lemma do_PutSecretValue_store:
  "do_PutSecretValue (store_Config a b c) i w =
     (fst (store_PutSecretValue i (fst (ports w))),
      w\<lparr>ports := (snd (store_PutSecretValue i (fst (ports w))), snd (ports w)),
        trace := trace w @ [PutSecretValue_call i]\<rparr>)"
  by (simp add: do_PutSecretValue_def store_Config_def split: prod.splits)

lemma do_UpdateSecretVersionStage_store:
  "do_UpdateSecretVersionStage (store_Config a b c) i w =
     (fst (store_UpdateSecretVersionStage i (fst (ports w))),
      w\<lparr>ports := (snd (store_UpdateSecretVersionStage i (fst (ports w))), snd (ports w)),
        trace := trace w @ [UpdateSecretVersionStage_call i]\<rparr>)"
  by (simp add: do_UpdateSecretVersionStage_def store_Config_def split: prod.splits)

lemma do_GenerateSecret_store:
  "fst (ports (snd (do_GenerateSecret (store_Config a b c) w))) = fst (ports w)"
  by (simp add: do_GenerateSecret_def store_Config_def split: prod.splits)

lemma createSecret_store_current:
  "stage_holders ''AWSCURRENT'' (fst (ports (snd (createSecret J (store_Config a b c) event w))))
     = stage_holders ''AWSCURRENT'' (fst (ports w))"
proof -
  have gen: "\<And>u r u'. do_GenerateSecret (store_Config a b c) u = (r, u') \<Longrightarrow>
               fst (ports u') = fst (ports u)"
    using do_GenerateSecret_store by (metis snd_conv)
  show ?thesis
    by (auto simp: createSecret_def do_GetSecretValue_store do_PutSecretValue_store
        store_PutSecretValue_def holders_writePending dest!: gen
        split: prod.splits sum.splits option.splits)
qed

lemma finishSecret_store_current:
  assumes "length (stage_holders ''AWSCURRENT'' (fst (ports w))) \<le> 1"
  shows "length (stage_holders ''AWSCURRENT''
            (fst (ports (snd (finishSecret (store_Config a b c) event w))))) \<le> 1
       \<and> (stage_holders ''AWSCURRENT'' (fst (ports w)) \<noteq> [] \<longrightarrow>
            stage_holders ''AWSCURRENT''
              (fst (ports (snd (finishSecret (store_Config a b c) event w)))) \<noteq> [])"
proof (cases "scan_metadata (Token event) (ResultMetadata (store_DescribeSecret (fst (ports w))))")
  case Returned
  with assms show ?thesis
    by (simp add: finishSecret_def do_DescribeSecret_store)
next
  case (Asserted msg)
  with assms show ?thesis
    by (simp add: finishSecret_def do_DescribeSecret_store)
next
  case (Scanned cur)
  obtain e st' where p: "promote (fst (ports w)) (Token event) cur = (e, st')"
    by (cases "promote (fst (ports w)) (Token event) cur")
  have after: "fst (ports (snd (finishSecret (store_Config a b c) event w))) = st'"
    using Scanned p
    by (simp add: finishSecret_def do_DescribeSecret_store do_UpdateSecretVersionStage_store
        store_UpdateSecretVersionStage_def)
  show ?thesis
  proof (cases e)
    case None
    with p assms have "stage_holders ''AWSCURRENT'' st' = [Token event]"
      by (simp add: promote_holders)
    with after show ?thesis by simp
  next
    case (Some err)
    with promote_cases [OF p] have "st' = fst (ports w)" by simp
    with after assms show ?thesis by simp
  qed
qed

lemma router_store_current:
  assumes "length (stage_holders ''AWSCURRENT'' (fst (ports w))) \<le> 1"
  shows "length (stage_holders ''AWSCURRENT''
            (fst (ports (snd (router J (store_Config a b c) event w))))) \<le> 1
       \<and> (stage_holders ''AWSCURRENT'' (fst (ports w)) \<noteq> [] \<longrightarrow>
            stage_holders ''AWSCURRENT''
              (fst (ports (snd (router J (store_Config a b c) event w)))) \<noteq> [])"
  using assms finishSecret_store_current [OF assms, of a b c event]
  by (simp add: router_def createSecret_store_current setSecret_def testSecret_def)

section \<open>finishSecret when no version is current\<close>

text \<open>
  C9. When the describe call succeeds and no version in its table carries
  \<open>AWSCURRENT\<close> (or the response has no table at all), \<open>finishSecret\<close> does not
  return on its own: it calls \<open>UpdateSecretVersionStage\<close> with the token as the
  version to move to and the empty string as the version to remove from, and its result
  is the result of that call, success or error.
\<close>

lemma finishSecret_no_current:
  assumes "DescribeSecret cfg \<lparr>ds_SecretId = SecretARN event\<rparr> (ports w) = (Inr v, s1)"
    and "(map_of (ResultMetadata v) ''VersionIdsToStages'' = Some (stage_table t)
           \<and> (\<forall>p \<in> set t. ''AWSCURRENT'' \<notin> set (snd p)))
         \<or> (\<forall>vv. map_of (ResultMetadata v) ''VersionIdsToStages'' \<noteq> Some (AnyMap vv))"
    and "UpdateSecretVersionStage cfg
           \<lparr>usv_SecretId = SecretARN event, usv_VersionStage = ''AWSCURRENT'',
            usv_MoveToVersionId = Token event, usv_RemoveFromVersionId = ''''\<rparr> s1 = (e, s2)"
  shows "finishSecret cfg event w =
     (of_error e,
      w\<lparr>ports := s2,
        trace := trace w @
          [DescribeSecret_call \<lparr>ds_SecretId = SecretARN event\<rparr>,
           UpdateSecretVersionStage_call
             \<lparr>usv_SecretId = SecretARN event, usv_VersionStage = ''AWSCURRENT'',
              usv_MoveToVersionId = Token event, usv_RemoveFromVersionId = ''''\<rparr>]\<rparr>)"
proof -
  have "scan_metadata (Token event) (ResultMetadata v) = Scanned ''''"
    using assms(2)
  proof
    assume a: "map_of (ResultMetadata v) ''VersionIdsToStages'' = Some (stage_table t)
           \<and> (\<forall>p \<in> set t. ''AWSCURRENT'' \<notin> set (snd p))"
    then have "filter (\<lambda>p. ''AWSCURRENT'' \<in> set (snd p)) t = []"
      by (simp add: filter_empty_conv)
    with a show ?thesis
      by (simp add: scan_metadata_def stage_table_def scan_versions_table)
  next
    assume "\<forall>vv. map_of (ResultMetadata v) ''VersionIdsToStages'' \<noteq> Some (AnyMap vv)"
    then show ?thesis
      by (auto simp: scan_metadata_def split: option.splits any_value.splits)
  qed
  then show ?thesis
    using assms(1,3)
    by (simp add: finishSecret_def do_DescribeSecret_def do_UpdateSecretVersionStage_def)
qed

text \<open>On a store with only a pending version the store answers \<open>Conflict\<close>.\<close>

theorem finishSecret_no_current_witness:
  "finishSecret pair_Config (request ''finishSecret'' ''T1'') (pair_world store_P) =
     (Failure (Conflict ''''),
      (pair_world store_P)\<lparr>trace :=
          [DescribeSecret_call \<lparr>ds_SecretId = ''arn:secret''\<rparr>,
           UpdateSecretVersionStage_call
             \<lparr>usv_SecretId = ''arn:secret'', usv_VersionStage = ''AWSCURRENT'',
              usv_MoveToVersionId = ''T1'', usv_RemoveFromVersionId = ''''\<rparr>]\<rparr>)"
  using finishSecret_no_current [of pair_Config "request ''finishSecret'' ''T1''"
      "pair_world store_P" "store_DescribeSecret store_P" "(store_P, ())"
      "describeVersions store_P" "Some (Conflict '''')" "(store_P, ())"]
  by (simp add: pair_Config_def store_Config_def request_def pair_world_def store_P_def
      store_DescribeSecret_def describeVersions_def store_UpdateSecretVersionStage_def
      promote_def of_error_def)

section \<open>The current label over a sequence of requests\<close>

text \<open>
  C1. On the store of the Secret Store Port, with any backing resource and any codec:
  if at most one version holds \<open>AWSCURRENT\<close> before a sequence of requests
  (any steps, any tokens, unknown steps, steps that fail or panic), then at most one
  version holds it after the sequence, and if some version held it before then some
  version holds it after.
\<close>

theorem never_zero_current:
  assumes "length (stage_holders ''AWSCURRENT'' (fst (ports w))) \<le> 1"
  shows "length (stage_holders ''AWSCURRENT''
            (fst (ports (run J (store_Config a b c) events w)))) \<le> 1
       \<and> (stage_holders ''AWSCURRENT'' (fst (ports w)) \<noteq> [] \<longrightarrow>
            stage_holders ''AWSCURRENT''
              (fst (ports (run J (store_Config a b c) events w))) \<noteq> [])"
  using assms
proof (induction events arbitrary: w)
  case Nil
  then show ?case by simp
next
  case (Cons event events)
  from router_store_current [OF Cons.prems, of J a b c event]
  have one: "length (stage_holders ''AWSCURRENT''
            (fst (ports (snd (router J (store_Config a b c) event w))))) \<le> 1"
    and some: "stage_holders ''AWSCURRENT'' (fst (ports w)) \<noteq> [] \<longrightarrow>
            stage_holders ''AWSCURRENT''
              (fst (ports (snd (router J (store_Config a b c) event w)))) \<noteq> []"
    by simp_all
  from Cons.IH [OF one] some show ?case by simp
qed

text \<open>A rotation from Scenario A, with a step that panics and a repeated step.\<close>

theorem never_zero_current_witness:
  "length (stage_holders ''AWSCURRENT'' (fst (ports (pair_world store_A)))) \<le> 1 \<and>
   length (stage_holders ''AWSCURRENT''
     (fst (ports (run pair_json pair_Config
        [request ''createSecret'' ''T1'', request ''setSecret'' ''T1'',
         request ''finishSecret'' ''T1'', request ''finishSecret'' ''T1'']
        (pair_world store_A))))) \<le> 1 \<and>
   stage_holders ''AWSCURRENT''
     (fst (ports (run pair_json pair_Config
        [request ''createSecret'' ''T1'', request ''setSecret'' ''T1'',
         request ''finishSecret'' ''T1'', request ''finishSecret'' ''T1'']
        (pair_world store_A)))) \<noteq> []"
proof -
  have h: "length (stage_holders ''AWSCURRENT'' (fst (ports (pair_world store_A)))) \<le> 1"
    by (simp add: pair_world_def store_A_def stage_holders_def)
  have n: "stage_holders ''AWSCURRENT'' (fst (ports (pair_world store_A))) \<noteq> []"
    by (simp add: pair_world_def store_A_def stage_holders_def)
  from never_zero_current [OF h, of pair_json pair_apply pair_apply pair_generate
      "[request ''createSecret'' ''T1'', request ''setSecret'' ''T1'',
         request ''finishSecret'' ''T1'', request ''finishSecret'' ''T1'']"] h n
  show ?thesis
    unfolding pair_Config_def by blast
qed

section \<open>createSecret on the store\<close>

lemma createSecret_guard:
  assumes "GetSecretValue cfg
             \<lparr>gsv_SecretId = SecretARN event, gsv_VersionStage = Some ''AWSCURRENT'',
              gsv_VersionId = None\<rparr> (ports w) = (Inr v, s1)"
    and "GetSecretValue cfg
             \<lparr>gsv_SecretId = SecretARN event, gsv_VersionStage = Some ''AWSPENDING'',
              gsv_VersionId = Some (Token event)\<rparr> s1 = (Inr v', s2)"
  shows "createSecret J cfg event w =
     (Success,
      w\<lparr>ports := s2,
        trace := trace w @
          [GetSecretValue_call
             \<lparr>gsv_SecretId = SecretARN event, gsv_VersionStage = Some ''AWSCURRENT'',
              gsv_VersionId = None\<rparr>,
           GetSecretValue_call
             \<lparr>gsv_SecretId = SecretARN event, gsv_VersionStage = Some ''AWSPENDING'',
              gsv_VersionId = Some (Token event)\<rparr>]\<rparr>)"
  using assms by (simp add: createSecret_def do_GetSecretValue_def)

lemma read_current_store:
  "(\<exists>v. store_GetSecretValue
          \<lparr>gsv_SecretId = arn, gsv_VersionStage = Some stage, gsv_VersionId = None\<rparr> st = Inr v)
     \<longleftrightarrow> stage_holders stage st \<noteq> []"
proof (cases "find (\<lambda>p. stage \<in> set (stages (snd p))) st")
  case None
  then have "stage_holders stage st = []"
    by (auto simp: find_None_iff stage_holders_def filter_empty_conv)
  with None show ?thesis
    by (simp add: store_GetSecretValue_def readByStage_def)
next
  case (Some p)
  then have "stage_holders stage st \<noteq> []"
    by (auto simp: find_Some_iff stage_holders_def filter_empty_conv)
  with Some show ?thesis
    by (cases p) (simp add: store_GetSecretValue_def readByStage_def)
qed

lemma read_pending_store:
  "(\<exists>v. store_GetSecretValue
          \<lparr>gsv_SecretId = arn, gsv_VersionStage = Some stage, gsv_VersionId = Some vid\<rparr> st
          = Inr v)
     \<longleftrightarrow> (\<exists>sv. map_of st vid = Some sv \<and> stage \<in> set (stages sv))"
  by (auto simp: store_GetSecretValue_def readByVersion_def split: option.splits)

lemma lookup_writePending:
  "\<exists>sv. map_of (writePending st token bytes) token = Some sv \<and>
        ''AWSPENDING'' \<in> set (stages sv) \<and> content sv = bytes"
proof (cases "map_of st token")
  case None
  then show ?thesis by (simp add: writePending_def map_add_def)
next
  case (Some v)
  then show ?thesis by (simp add: writePending_def map_of_map_entry add_stage_def)
qed

lemma holders_map_entry_add:
  "stage_holders stage st = [] \<Longrightarrow> map_of st k = Some v \<Longrightarrow>
   (\<And>x. stage \<in> set (stages (f x))) \<Longrightarrow>
   stage_holders stage (AList.map_entry k f st) = [k]"
  by (induction st) (auto simp: stage_holders_def split: if_splits)

lemma pending_writePending:
  assumes "stage_holders ''AWSPENDING'' st = []"
  shows "stage_holders ''AWSPENDING'' (writePending st token bytes) = [token]"
proof (cases "map_of st token")
  case None
  with assms show ?thesis by (simp add: writePending_def stage_holders_def)
next
  case (Some v)
  have "stage_holders ''AWSPENDING''
          (AList.map_entry token (\<lambda>v. add_stage ''AWSPENDING'' (v\<lparr>content := bytes\<rparr>)) st)
        = [token]"
    using assms Some by (rule holders_map_entry_add) (simp add: add_stage_def)
  with Some show ?thesis by (simp add: writePending_def)
qed

lemma createSecret_store_success:
  assumes "createSecret J (store_Config a b c) event u0 = (Success, u1)"
  shows "stage_holders ''AWSCURRENT'' (fst (ports u0)) \<noteq> [] \<and>
     (((\<exists>sv. map_of (fst (ports u0)) (Token event) = Some sv \<and>
             ''AWSPENDING'' \<in> set (stages sv)) \<and> fst (ports u1) = fst (ports u0)) \<or>
      ((\<nexists>sv. map_of (fst (ports u0)) (Token event) = Some sv \<and>
             ''AWSPENDING'' \<in> set (stages sv)) \<and>
       (\<exists>out. fst (ports u1) = writePending (fst (ports u0)) (Token event) out)))"
proof -
  let ?cur = "\<lparr>gsv_SecretId = SecretARN event, gsv_VersionStage = Some ''AWSCURRENT'',
              gsv_VersionId = None\<rparr>"
  let ?pen = "\<lparr>gsv_SecretId = SecretARN event, gsv_VersionStage = Some ''AWSPENDING'',
              gsv_VersionId = Some (Token event)\<rparr>"
  let ?st = "fst (ports u0)"
  have gen: "\<And>u r u'. do_GenerateSecret (store_Config a b c) u = (r, u') \<Longrightarrow>
               fst (ports u') = fst (ports u)"
    using do_GenerateSecret_store by (metis snd_conv)
  from assms obtain v where cur: "store_GetSecretValue ?cur ?st = Inr v"
    by (auto simp: createSecret_def do_GetSecretValue_store split: sum.splits)
  then have h: "stage_holders ''AWSCURRENT'' ?st \<noteq> []"
    using read_current_store [of "SecretARN event" "''AWSCURRENT''" ?st] by blast
  show ?thesis
  proof (cases "store_GetSecretValue ?pen ?st")
    case (Inr v')
    then have "\<exists>sv. map_of ?st (Token event) = Some sv \<and> ''AWSPENDING'' \<in> set (stages sv)"
      using read_pending_store [of "SecretARN event" "''AWSPENDING''" "Token event" ?st]
      by blast
    moreover from assms cur Inr have "fst (ports u1) = ?st"
      by (auto simp: createSecret_def do_GetSecretValue_store)
    ultimately show ?thesis using h by blast
  next
    case (Inl err)
    then have "\<nexists>sv. map_of ?st (Token event) = Some sv \<and> ''AWSPENDING'' \<in> set (stages sv)"
      using read_pending_store [of "SecretARN event" "''AWSPENDING''" "Token event" ?st]
      by auto
    moreover from assms cur Inl
    have "\<exists>out. fst (ports u1) = writePending ?st (Token event) out"
      by (auto simp: createSecret_def do_GetSecretValue_store do_PutSecretValue_store
          store_PutSecretValue_def of_error_def dest!: gen
          split: prod.splits sum.splits option.splits)
    ultimately show ?thesis using h by blast
  qed
qed

lemma createSecret_store_held:
  assumes "stage_holders ''AWSCURRENT'' (fst (ports x)) \<noteq> []"
    and "map_of (fst (ports x)) (Token event) = Some sv" and "''AWSPENDING'' \<in> set (stages sv)"
  shows "createSecret J (store_Config a b c) event x =
     (Success,
      x\<lparr>trace := trace x @
          [GetSecretValue_call
             \<lparr>gsv_SecretId = SecretARN event, gsv_VersionStage = Some ''AWSCURRENT'',
              gsv_VersionId = None\<rparr>,
           GetSecretValue_call
             \<lparr>gsv_SecretId = SecretARN event, gsv_VersionStage = Some ''AWSPENDING'',
              gsv_VersionId = Some (Token event)\<rparr>]\<rparr>)"
proof -
  from assms(1) obtain v where
    "store_GetSecretValue \<lparr>gsv_SecretId = SecretARN event,
       gsv_VersionStage = Some ''AWSCURRENT'', gsv_VersionId = None\<rparr> (fst (ports x)) = Inr v"
    using read_current_store [of "SecretARN event" "''AWSCURRENT''" "fst (ports x)"] by blast
  moreover from assms(2,3) obtain v' where
    "store_GetSecretValue \<lparr>gsv_SecretId = SecretARN event,
       gsv_VersionStage = Some ''AWSPENDING'', gsv_VersionId = Some (Token event)\<rparr>
       (fst (ports x)) = Inr v'"
    using read_pending_store [of "SecretARN event" "''AWSPENDING''" "Token event"
        "fst (ports x)"] by blast
  ultimately show ?thesis
    by (simp add: createSecret_def do_GetSecretValue_store)
qed

lemma createSecret_scenario_A:
  "createSecret pair_json pair_Config (request ''createSecret'' ''T1'') (pair_world store_A) =
     (Success,
      \<lparr>ports = (store_B, ()), SecretObj = (''P0+'', ''dev''),
       trace =
         [GetSecretValue_call
            \<lparr>gsv_SecretId = ''arn:secret'', gsv_VersionStage = Some ''AWSCURRENT'',
             gsv_VersionId = None\<rparr>,
          GetSecretValue_call
            \<lparr>gsv_SecretId = ''arn:secret'', gsv_VersionStage = Some ''AWSPENDING'',
             gsv_VersionId = Some ''T1''\<rparr>,
          GenerateSecret_call,
          PutSecretValue_call
            \<lparr>psv_SecretId = ''arn:secret'', psv_ClientRequestToken = ''T1'',
             psv_SecretString = ''P0+:dev'', psv_VersionStages = [''AWSPENDING'']\<rparr>]\<rparr>)"
  by (simp add: createSecret_def do_GetSecretValue_def do_PutSecretValue_def
      do_GenerateSecret_def pair_Config_def store_Config_def request_def pair_world_def
      store_A_def store_B_def store_GetSecretValue_def readByStage_def readByVersion_def
      extractSecretObject_def serialiseSecret_def pair_json_def pair_generate_def
      store_PutSecretValue_def writePending_def of_error_def)

section \<open>createSecret is idempotent\<close>

text \<open>
  C3. When the read of the current envelope and then the read of the token's
  \<open>AWSPENDING\<close> version both succeed, \<open>createSecret\<close> returns success at once:
  the two reads are its only port calls, so \<open>GenerateSecret\<close> is not called, nothing
  is written to the store and the secret object is untouched. This holds for any
  client, and so for every state of the store that has a current version and in which
  the token's version carries \<open>AWSPENDING\<close>. Hence, on the store, a second \<open>createSecret\<close> with the same request after a
  successful first one succeeds with those two reads only and leaves the store and its
  pending content as the first call left them; and when no version was pending before
  the first call, the token's version is the one pending version afterwards.
\<close>

theorem createSecret_idempotent:
  "(GetSecretValue cfg
      \<lparr>gsv_SecretId = SecretARN event, gsv_VersionStage = Some ''AWSCURRENT'',
       gsv_VersionId = None\<rparr> (ports w) = (Inr v, s1) \<and>
    GetSecretValue cfg
      \<lparr>gsv_SecretId = SecretARN event, gsv_VersionStage = Some ''AWSPENDING'',
       gsv_VersionId = Some (Token event)\<rparr> s1 = (Inr v', s2) \<longrightarrow>
    createSecret J cfg event w =
     (Success,
      w\<lparr>ports := s2,
        trace := trace w @
          [GetSecretValue_call
             \<lparr>gsv_SecretId = SecretARN event, gsv_VersionStage = Some ''AWSCURRENT'',
              gsv_VersionId = None\<rparr>,
           GetSecretValue_call
             \<lparr>gsv_SecretId = SecretARN event, gsv_VersionStage = Some ''AWSPENDING'',
              gsv_VersionId = Some (Token event)\<rparr>]\<rparr>)) \<and>
   (createSecret J (store_Config a b c) event u0 = (Success, u1) \<longrightarrow>
    createSecret J (store_Config a b c) event u1 =
     (Success,
      u1\<lparr>trace := trace u1 @
          [GetSecretValue_call
             \<lparr>gsv_SecretId = SecretARN event, gsv_VersionStage = Some ''AWSCURRENT'',
              gsv_VersionId = None\<rparr>,
           GetSecretValue_call
             \<lparr>gsv_SecretId = SecretARN event, gsv_VersionStage = Some ''AWSPENDING'',
              gsv_VersionId = Some (Token event)\<rparr>]\<rparr>)) \<and>
   (createSecret J (store_Config a b c) event u0 = (Success, u1) \<and>
    stage_holders ''AWSPENDING'' (fst (ports u0)) = [] \<longrightarrow>
    stage_holders ''AWSPENDING'' (fst (ports u1)) = [Token event]) \<and>
   (stage_holders ''AWSCURRENT'' (fst (ports x)) \<noteq> [] \<and>
    map_of (fst (ports x)) (Token event) = Some sv \<and> ''AWSPENDING'' \<in> set (stages sv) \<longrightarrow>
    createSecret J (store_Config a b c) event x =
     (Success,
      x\<lparr>trace := trace x @
          [GetSecretValue_call
             \<lparr>gsv_SecretId = SecretARN event, gsv_VersionStage = Some ''AWSCURRENT'',
              gsv_VersionId = None\<rparr>,
           GetSecretValue_call
             \<lparr>gsv_SecretId = SecretARN event, gsv_VersionStage = Some ''AWSPENDING'',
              gsv_VersionId = Some (Token event)\<rparr>]\<rparr>))"
proof (intro conjI impI)
  assume "GetSecretValue cfg
      \<lparr>gsv_SecretId = SecretARN event, gsv_VersionStage = Some ''AWSCURRENT'',
       gsv_VersionId = None\<rparr> (ports w) = (Inr v, s1) \<and>
    GetSecretValue cfg
      \<lparr>gsv_SecretId = SecretARN event, gsv_VersionStage = Some ''AWSPENDING'',
       gsv_VersionId = Some (Token event)\<rparr> s1 = (Inr v', s2)"
  then show "createSecret J cfg event w =
     (Success,
      w\<lparr>ports := s2,
        trace := trace w @
          [GetSecretValue_call
             \<lparr>gsv_SecretId = SecretARN event, gsv_VersionStage = Some ''AWSCURRENT'',
              gsv_VersionId = None\<rparr>,
           GetSecretValue_call
             \<lparr>gsv_SecretId = SecretARN event, gsv_VersionStage = Some ''AWSPENDING'',
              gsv_VersionId = Some (Token event)\<rparr>]\<rparr>)"
    by (simp add: createSecret_guard [of cfg event w v s1 v' s2 J])
next
  assume first: "createSecret J (store_Config a b c) event u0 = (Success, u1)"
  from createSecret_store_success [OF first]
  have cur0: "stage_holders ''AWSCURRENT'' (fst (ports u0)) \<noteq> []" by blast
  have cur1: "stage_holders ''AWSCURRENT'' (fst (ports u1)) \<noteq> []"
    using createSecret_store_current [of J a b c event u0] first cur0 by simp
  have "\<exists>sv. map_of (fst (ports u1)) (Token event) = Some sv \<and> ''AWSPENDING'' \<in> set (stages sv)"
    using createSecret_store_success [OF first] lookup_writePending by metis
  then obtain sv where "map_of (fst (ports u1)) (Token event) = Some sv"
    and "''AWSPENDING'' \<in> set (stages sv)" by blast
  with cur1 show "createSecret J (store_Config a b c) event u1 =
     (Success,
      u1\<lparr>trace := trace u1 @
          [GetSecretValue_call
             \<lparr>gsv_SecretId = SecretARN event, gsv_VersionStage = Some ''AWSCURRENT'',
              gsv_VersionId = None\<rparr>,
           GetSecretValue_call
             \<lparr>gsv_SecretId = SecretARN event, gsv_VersionStage = Some ''AWSPENDING'',
              gsv_VersionId = Some (Token event)\<rparr>]\<rparr>)"
    by (rule createSecret_store_held)
next
  assume "createSecret J (store_Config a b c) event u0 = (Success, u1) \<and>
    stage_holders ''AWSPENDING'' (fst (ports u0)) = []"
  then have first: "createSecret J (store_Config a b c) event u0 = (Success, u1)"
    and none: "stage_holders ''AWSPENDING'' (fst (ports u0)) = []" by simp_all
  have "\<nexists>sv. map_of (fst (ports u0)) (Token event) = Some sv \<and> ''AWSPENDING'' \<in> set (stages sv)"
    using none holders_nonempty_of_lookup by blast
  with createSecret_store_success [OF first]
  obtain out where "fst (ports u1) = writePending (fst (ports u0)) (Token event) out"
    by blast
  with none show "stage_holders ''AWSPENDING'' (fst (ports u1)) = [Token event]"
    by (simp add: pending_writePending)
next
  assume "stage_holders ''AWSCURRENT'' (fst (ports x)) \<noteq> [] \<and>
    map_of (fst (ports x)) (Token event) = Some sv \<and> ''AWSPENDING'' \<in> set (stages sv)"
  then show "createSecret J (store_Config a b c) event x =
     (Success,
      x\<lparr>trace := trace x @
          [GetSecretValue_call
             \<lparr>gsv_SecretId = SecretARN event, gsv_VersionStage = Some ''AWSCURRENT'',
              gsv_VersionId = None\<rparr>,
           GetSecretValue_call
             \<lparr>gsv_SecretId = SecretARN event, gsv_VersionStage = Some ''AWSPENDING'',
              gsv_VersionId = Some (Token event)\<rparr>]\<rparr>)"
    by (simp add: createSecret_store_held [of x event sv J a b c])
qed

text \<open>Scenarios A and B of the spec: \<open>createSecret\<close> for \<open>T1\<close>, twice.\<close>

theorem createSecret_idempotent_witness:
  "createSecret pair_json pair_Config (request ''createSecret'' ''T1'') (pair_world store_A) =
     (Success,
      \<lparr>ports = (store_B, ()), SecretObj = (''P0+'', ''dev''),
       trace =
         [GetSecretValue_call
            \<lparr>gsv_SecretId = ''arn:secret'', gsv_VersionStage = Some ''AWSCURRENT'',
             gsv_VersionId = None\<rparr>,
          GetSecretValue_call
            \<lparr>gsv_SecretId = ''arn:secret'', gsv_VersionStage = Some ''AWSPENDING'',
             gsv_VersionId = Some ''T1''\<rparr>,
          GenerateSecret_call,
          PutSecretValue_call
            \<lparr>psv_SecretId = ''arn:secret'', psv_ClientRequestToken = ''T1'',
             psv_SecretString = ''P0+:dev'', psv_VersionStages = [''AWSPENDING'']\<rparr>]\<rparr>) \<and>
   createSecret pair_json pair_Config (request ''createSecret'' ''T1'')
      \<lparr>ports = (store_B, ()), SecretObj = (''P0+'', ''dev''),
       trace =
         [GetSecretValue_call
            \<lparr>gsv_SecretId = ''arn:secret'', gsv_VersionStage = Some ''AWSCURRENT'',
             gsv_VersionId = None\<rparr>,
          GetSecretValue_call
            \<lparr>gsv_SecretId = ''arn:secret'', gsv_VersionStage = Some ''AWSPENDING'',
             gsv_VersionId = Some ''T1''\<rparr>,
          GenerateSecret_call,
          PutSecretValue_call
            \<lparr>psv_SecretId = ''arn:secret'', psv_ClientRequestToken = ''T1'',
             psv_SecretString = ''P0+:dev'', psv_VersionStages = [''AWSPENDING'']\<rparr>]\<rparr> =
     (Success,
      \<lparr>ports = (store_B, ()), SecretObj = (''P0+'', ''dev''),
       trace =
         [GetSecretValue_call
            \<lparr>gsv_SecretId = ''arn:secret'', gsv_VersionStage = Some ''AWSCURRENT'',
             gsv_VersionId = None\<rparr>,
          GetSecretValue_call
            \<lparr>gsv_SecretId = ''arn:secret'', gsv_VersionStage = Some ''AWSPENDING'',
             gsv_VersionId = Some ''T1''\<rparr>,
          GenerateSecret_call,
          PutSecretValue_call
            \<lparr>psv_SecretId = ''arn:secret'', psv_ClientRequestToken = ''T1'',
             psv_SecretString = ''P0+:dev'', psv_VersionStages = [''AWSPENDING'']\<rparr>,
          GetSecretValue_call
            \<lparr>gsv_SecretId = ''arn:secret'', gsv_VersionStage = Some ''AWSCURRENT'',
             gsv_VersionId = None\<rparr>,
          GetSecretValue_call
            \<lparr>gsv_SecretId = ''arn:secret'', gsv_VersionStage = Some ''AWSPENDING'',
             gsv_VersionId = Some ''T1''\<rparr>]\<rparr>) \<and>
   stage_holders ''AWSPENDING'' store_B = [''T1'']"
proof -
  let ?req = "request ''createSecret'' ''T1''"
  let ?w1 = "\<lparr>ports = (store_B, ()), SecretObj = (''P0+'', ''dev''),
       trace =
         [GetSecretValue_call
            \<lparr>gsv_SecretId = ''arn:secret'', gsv_VersionStage = Some ''AWSCURRENT'',
             gsv_VersionId = None\<rparr>,
          GetSecretValue_call
            \<lparr>gsv_SecretId = ''arn:secret'', gsv_VersionStage = Some ''AWSPENDING'',
             gsv_VersionId = Some ''T1''\<rparr>,
          GenerateSecret_call,
          PutSecretValue_call
            \<lparr>psv_SecretId = ''arn:secret'', psv_ClientRequestToken = ''T1'',
             psv_SecretString = ''P0+:dev'', psv_VersionStages = [''AWSPENDING'']\<rparr>]\<rparr>
       :: (store \<times> unit, string \<times> string) world"
  have first: "createSecret pair_json pair_Config ?req (pair_world store_A) = (Success, ?w1)"
    by (rule createSecret_scenario_A)
  have none: "stage_holders ''AWSPENDING'' (fst (ports (pair_world store_A))) = []"
    by (simp add: pair_world_def store_A_def stage_holders_def)
  have reads: "GetSecretValue pair_Config
      \<lparr>gsv_SecretId = SecretARN ?req, gsv_VersionStage = Some ''AWSCURRENT'',
       gsv_VersionId = None\<rparr> (ports ?w1) = (Inr \<lparr>SecretString = Some ''P0:dev''\<rparr>, (store_B, ())) \<and>
    GetSecretValue pair_Config
      \<lparr>gsv_SecretId = SecretARN ?req, gsv_VersionStage = Some ''AWSPENDING'',
       gsv_VersionId = Some (Token ?req)\<rparr> (store_B, ())
        = (Inr \<lparr>SecretString = Some ''P0+:dev''\<rparr>, (store_B, ()))"
    by (simp add: pair_Config_def store_Config_def request_def store_B_def
        store_GetSecretValue_def readByStage_def readByVersion_def)
  have held: "stage_holders ''AWSCURRENT'' (fst (ports ?w1)) \<noteq> [] \<and>
      map_of (fst (ports ?w1)) (Token ?req)
        = Some \<lparr>content = ''P0+:dev'', stages = [''AWSPENDING'']\<rparr> \<and>
      ''AWSPENDING'' \<in> set (stages \<lparr>content = ''P0+:dev'', stages = [''AWSPENDING'']\<rparr>)"
    by (simp add: store_B_def stage_holders_def request_def)
  from createSecret_idempotent [of pair_Config ?req ?w1 "\<lparr>SecretString = Some ''P0:dev''\<rparr>"
      "(store_B, ())" "\<lparr>SecretString = Some ''P0+:dev''\<rparr>" "(store_B, ())" pair_json
      pair_apply pair_apply pair_generate "pair_world store_A" ?w1 ?w1
      "\<lparr>content = ''P0+:dev'', stages = [''AWSPENDING'']\<rparr>"]
    first none reads held
  show ?thesis
    by (simp add: pair_Config_def request_def)
qed

section \<open>A failed pending read in createSecret\<close>

text \<open>
  C4. The claim: only a \<open>NotFound\<close> failure of the read at (token, \<open>AWSPENDING\<close>)
  leads to generating and writing, and any other failure of that read is returned to the
  caller. The source tests only \<open>nil == err\<close>: every error of that read is taken for
  absence. Here the token \<open>T1\<close> is pending in the store with content \<open>P1:dev\<close>
  and the client refuses the read by version id with an error that is not \<open>NotFound\<close>;
  \<open>createSecret\<close> calls \<open>GenerateSecret\<close> and \<open>PutSecretValue\<close>, overwrites the
  pending content and returns success; the error is lost.
\<close>

theorem createSecret_swallows_read_error:
  "createSecret pair_json denied_Config (request ''createSecret'' ''T1'') (pair_world store_C) =
     (Success,
      \<lparr>ports = (store_B, ()), SecretObj = (''P0+'', ''dev''),
       trace =
         [GetSecretValue_call
            \<lparr>gsv_SecretId = ''arn:secret'', gsv_VersionStage = Some ''AWSCURRENT'',
             gsv_VersionId = None\<rparr>,
          GetSecretValue_call
            \<lparr>gsv_SecretId = ''arn:secret'', gsv_VersionStage = Some ''AWSPENDING'',
             gsv_VersionId = Some ''T1''\<rparr>,
          GenerateSecret_call,
          PutSecretValue_call
            \<lparr>psv_SecretId = ''arn:secret'', psv_ClientRequestToken = ''T1'',
             psv_SecretString = ''P0+:dev'', psv_VersionStages = [''AWSPENDING'']\<rparr>]\<rparr>) \<and>
   GetSecretValue denied_Config
      \<lparr>gsv_SecretId = ''arn:secret'', gsv_VersionStage = Some ''AWSPENDING'',
       gsv_VersionId = Some ''T1''\<rparr> (store_C, ())
     = (Inl (PortError ''AccessDeniedException''), (store_C, ())) \<and>
   readByVersion store_C ''T1'' ''AWSPENDING'' = Inr ''P1:dev''"
  by (simp add: createSecret_def do_GetSecretValue_def do_PutSecretValue_def
      do_GenerateSecret_def denied_Config_def pair_Config_def store_Config_def request_def
      pair_world_def store_C_def store_B_def store_GetSecretValue_def readByStage_def
      readByVersion_def extractSecretObject_def serialiseSecret_def pair_json_def
      pair_generate_def store_PutSecretValue_def writePending_def of_error_def
      add_stage_def)

section \<open>Serialising and extracting the secret\<close>

text \<open>
  C10, amended. Whenever marshalling the secret succeeds, \<open>serialiseSecret\<close> returns
  that encoding; \<open>serialiseSecret\<close> returns an error exactly when marshalling fails;
  and \<open>extractSecretObject\<close>, applied to a store output carrying the encoding,
  reconstructs the original value whenever the codec decodes that encoding, into the
  target it is given, back to the value.
\<close>

theorem serialise_extract:
  "(Marshal J secret = Inr out \<longrightarrow> serialiseSecret J secret = Inr out) \<and>
   ((\<exists>err. serialiseSecret J secret = Inl err) \<longleftrightarrow> (\<exists>err. Marshal J secret = Inl err)) \<and>
   (Marshal J secret = Inr out \<and> Unmarshal J out target = (None, secret) \<longrightarrow>
      extractSecretObject J \<lparr>SecretString = Some out\<rparr> target = Some (None, secret))"
  by (auto simp: serialiseSecret_def extractSecretObject_def split: sum.splits)

theorem serialise_extract_witness:
  "serialiseSecret pair_json (''P0'', ''dev'') = Inr ''P0:dev'' \<and>
   extractSecretObject pair_json \<lparr>SecretString = Some ''P0:dev''\<rparr> ([], [])
     = Some (None, (''P0'', ''dev''))"
proof -
  have m: "Marshal pair_json (''P0'', ''dev'') = Inr ''P0:dev''"
    by (simp add: pair_json_def)
  have u: "Unmarshal pair_json ''P0:dev'' ([], []) = (None, (''P0'', ''dev''))"
    by (simp add: pair_json_def)
  from serialise_extract [of pair_json "(''P0'', ''dev'')" "''P0:dev''" "([], [])"] m u
  show ?thesis by blast
qed

text \<open>
  C10 as stated asks for the reconstruction after every successful marshalling. A value
  whose field the codec does not see is marshalled successfully, to the empty object,
  and is not reconstructed from it.
\<close>

theorem round_trip_counterexample:
  "Marshal unexported_json ''P1'' = Inr ''{}'' \<and>
   serialiseSecret unexported_json ''P1'' = Inr ''{}'' \<and>
   extractSecretObject unexported_json \<lparr>SecretString = Some ''{}''\<rparr> []
     \<noteq> Some (None, ''P1'')"
  by (simp add: unexported_json_def serialiseSecret_def extractSecretObject_def)

section \<open>finishSecret on a version that is already current\<close>

text \<open>
  C2. The claim: in every store state in which the version labeled \<open>AWSCURRENT\<close> is
  the incoming token, \<open>finishSecret\<close> returns success at once without calling
  \<open>UpdateSecretVersionStage\<close>, so that a second call after promotion succeeds and
  changes no label. The source looks for the version table in the metadata of the
  describe response, while the response carries it in its field
  \<open>VersionIdsToStages\<close>: the comma-ok assertion fails, the scan is skipped and
  \<open>currentVersion\<close> stays empty. On the store of Scenario D, where \<open>T1\<close> is
  current, \<open>finishSecret\<close> for \<open>T1\<close> calls \<open>UpdateSecretVersionStage\<close> with
  \<open>T1\<close> to move to and the empty string to remove from, and returns the error the
  store answers.
\<close>

theorem finishSecret_guard_skipped:
  "finishSecret pair_Config (request ''finishSecret'' ''T1'') (pair_world store_D) =
     (Failure (Conflict ''''),
      (pair_world store_D)\<lparr>trace :=
          [DescribeSecret_call \<lparr>ds_SecretId = ''arn:secret''\<rparr>,
           UpdateSecretVersionStage_call
             \<lparr>usv_SecretId = ''arn:secret'', usv_VersionStage = ''AWSCURRENT'',
              usv_MoveToVersionId = ''T1'', usv_RemoveFromVersionId = ''''\<rparr>]\<rparr>) \<and>
   stage_holders ''AWSCURRENT'' store_D = [''T1''] \<and>
   VersionIdsToStages (store_DescribeSecret store_D) =
     [(''old'', []), (''T1'', [''AWSPENDING'', ''AWSCURRENT''])] \<and>
   ResultMetadata (store_DescribeSecret store_D) = []"
  by (simp add: finishSecret_def do_DescribeSecret_def do_UpdateSecretVersionStage_def
      pair_Config_def store_Config_def request_def pair_world_def store_D_def
      store_DescribeSecret_def describeVersions_def scan_metadata_def
      store_UpdateSecretVersionStage_def promote_def of_error_def stage_holders_def)

section \<open>Generation freshness\<close>

lemma find_append_found:
  "find P xs = Some x \<Longrightarrow> find P (xs @ ys) = Some x"
  by (induction xs) (auto split: if_splits)

lemma find_map_entry_other:
  "find P st = Some (k', v') \<Longrightarrow> k' \<noteq> k \<Longrightarrow> (\<And>x v. P (x, f v) \<longleftrightarrow> P (x, v)) \<Longrightarrow>
   find P (AList.map_entry k f st) = Some (k', v')"
  by (induction st) (auto split: if_splits)

lemma readByStage_writePending:
  assumes "readByStage st stage = Inr (bytes, vid)" and "vid \<noteq> token"
    and "stage \<noteq> ''AWSPENDING''"
  shows "readByStage (writePending st token out) stage = Inr (bytes, vid)"
proof -
  let ?P = "\<lambda>p. stage \<in> set (stages (snd p))"
  from assms(1) obtain v where f: "find ?P st = Some (vid, v)" and c: "content v = bytes"
    by (auto simp: readByStage_def split: option.splits)
  show ?thesis
  proof (cases "map_of st token")
    case None
    with f c show ?thesis
      by (simp add: writePending_def readByStage_def find_append_found)
  next
    case (Some sv)
    have "find ?P (AList.map_entry token
            (\<lambda>v. add_stage ''AWSPENDING'' (v\<lparr>content := out\<rparr>)) st) = Some (vid, v)"
      using f assms(2)
      by (rule find_map_entry_other) (use assms(3) in \<open>auto simp: add_stage_def\<close>)
    with Some c show ?thesis
      by (simp add: writePending_def readByStage_def)
  qed
qed

text \<open>
  C5, amended. On the store, for any backing resource and codec: when a version holds
  \<open>AWSCURRENT\<close> and its bytes decode to the envelope \<open>cur\<close>, the token has no
  pending version, \<open>GenerateSecret\<close> succeeds and turns \<open>cur\<close> into \<open>new\<close> whose
  generated material differs and whose other fields are the same, and the codec encodes
  \<open>new\<close> and decodes that encoding back to \<open>new\<close>, then \<open>createSecret\<close> succeeds
  and the store has the version of the token labeled \<open>AWSPENDING\<close> whose stored
  content decodes to an envelope with different credential material than \<open>cur\<close> and
  identical other fields; and unless the token is the current version itself, the
  \<open>AWSCURRENT\<close> version still has the bytes that \<open>cur\<close> was decoded from.
  \<open>material\<close> and \<open>rest\<close> are any two projections of the envelope.
\<close>

theorem createSecret_fresh:
  assumes "readByStage (fst (ports w)) ''AWSCURRENT'' = Inr (bytes, vid)"
    and "readByVersion (fst (ports w)) (Token event) ''AWSPENDING'' = Inl err"
    and "Unmarshal J bytes (SecretObj w) = (None, cur)"
    and "c cur (snd (ports w)) = ((None, new), d)"
    and "material new \<noteq> material cur" and "rest new = rest cur"
    and "Marshal J new = Inr out"
    and "Unmarshal J out target = (None, new)"
  shows "\<exists>w' pbytes pend.
           createSecret J (store_Config a b c) event w = (Success, w') \<and>
           readByVersion (fst (ports w')) (Token event) ''AWSPENDING'' = Inr pbytes \<and>
           Unmarshal J pbytes target = (None, pend) \<and>
           material pend \<noteq> material cur \<and> rest pend = rest cur \<and>
           (Token event \<noteq> vid \<longrightarrow>
              readByStage (fst (ports w')) ''AWSCURRENT'' = Inr (bytes, vid))"
proof -
  let ?st' = "writePending (fst (ports w)) (Token event) out"
  have run: "createSecret J (store_Config a b c) event w =
     (Success,
      w\<lparr>ports := (?st', d), SecretObj := new,
        trace := trace w @
          [GetSecretValue_call
             \<lparr>gsv_SecretId = SecretARN event, gsv_VersionStage = Some ''AWSCURRENT'',
              gsv_VersionId = None\<rparr>,
           GetSecretValue_call
             \<lparr>gsv_SecretId = SecretARN event, gsv_VersionStage = Some ''AWSPENDING'',
              gsv_VersionId = Some (Token event)\<rparr>,
           GenerateSecret_call,
           PutSecretValue_call
             \<lparr>psv_SecretId = SecretARN event, psv_ClientRequestToken = Token event,
              psv_SecretString = out, psv_VersionStages = [''AWSPENDING'']\<rparr>]\<rparr>)"
    using assms(1-4,7)
    by (simp add: createSecret_def do_GetSecretValue_def do_GenerateSecret_def
        do_PutSecretValue_def store_Config_def store_GetSecretValue_def
        extractSecretObject_def serialiseSecret_def store_PutSecretValue_def of_error_def)
  from lookup_writePending [of "fst (ports w)" "Token event" out]
  have pending: "readByVersion ?st' (Token event) ''AWSPENDING'' = Inr out"
    by (auto simp: readByVersion_def)
  have current: "Token event \<noteq> vid \<longrightarrow> readByStage ?st' ''AWSCURRENT'' = Inr (bytes, vid)"
    using assms(1) by (simp add: readByStage_writePending)
  from run pending current assms(5,6,8) show ?thesis by simp
qed

text \<open>Scenario A of the spec, with the password as the material.\<close>

theorem createSecret_fresh_witness:
  "\<exists>w' pbytes pend.
      createSecret pair_json pair_Config (request ''createSecret'' ''T1'')
        (pair_world store_A) = (Success, w') \<and>
      readByVersion (fst (ports w')) ''T1'' ''AWSPENDING'' = Inr pbytes \<and>
      Unmarshal pair_json pbytes ([], []) = (None, pend) \<and>
      fst pend \<noteq> ''P0'' \<and> snd pend = ''dev'' \<and>
      readByStage (fst (ports w')) ''AWSCURRENT'' = Inr (''P0:dev'', ''old'')"
proof -
  have "readByStage (fst (ports (pair_world store_A))) ''AWSCURRENT'' = Inr (''P0:dev'', ''old'')"
    by (simp add: pair_world_def store_A_def readByStage_def)
  moreover have "readByVersion (fst (ports (pair_world store_A)))
      (Token (request ''createSecret'' ''T1'')) ''AWSPENDING'' = Inl (NotFound ''T1'')"
    by (simp add: pair_world_def store_A_def readByVersion_def request_def)
  moreover have "Unmarshal pair_json ''P0:dev'' (SecretObj (pair_world store_A))
      = (None, (''P0'', ''dev''))"
    by (simp add: pair_json_def pair_world_def)
  moreover have "pair_generate (''P0'', ''dev'') (snd (ports (pair_world store_A)))
      = ((None, (''P0+'', ''dev'')), ())"
    by (simp add: pair_generate_def)
  moreover have "fst (''P0+'', ''dev'') \<noteq> fst (''P0'', ''dev'')"
    and "snd (''P0+'', ''dev'') = snd (''P0'', ''dev'')" by simp_all
  moreover have "Marshal pair_json (''P0+'', ''dev'') = Inr ''P0+:dev''"
    by (simp add: pair_json_def)
  moreover have "Unmarshal pair_json ''P0+:dev'' ([], []) = (None, (''P0+'', ''dev''))"
    by (simp add: pair_json_def)
  ultimately show ?thesis
    using createSecret_fresh [of "pair_world store_A" "''P0:dev''" "''old''"
        "request ''createSecret'' ''T1''" "NotFound ''T1''" pair_json "(''P0'', ''dev'')"
        pair_generate "(''P0+'', ''dev'')" "()" fst snd "''P0+:dev''" "([], [])"
        pair_apply pair_apply]
    by (simp add: pair_Config_def request_def)
qed

text \<open>
  C5 as stated asks for this of every current envelope and every successful
  generation. With a secret whose generated field the codec does not see, the current
  envelope is read, generation succeeds and changes the field, and the pending version
  is written with the very bytes of the current version.
\<close>

theorem createSecret_fresh_counterexample:
  "readByStage store_U ''AWSCURRENT'' = Inr (''{}'', ''old'') \<and>
   readByVersion store_U ''T1'' ''AWSPENDING'' = Inl (NotFound ''T1'') \<and>
   Unmarshal unexported_json ''{}'' ''P0'' = (None, ''P0'') \<and>
   hidden_generate ''P0'' () = ((None, ''P0+''), ()) \<and>
   ''P0+'' \<noteq> ''P0'' \<and>
   createSecret unexported_json hidden_Config (request ''createSecret'' ''T1'') hidden_world =
     (Success,
      \<lparr>ports =
         ([(''old'', \<lparr>content = ''{}'', stages = [''AWSCURRENT'']\<rparr>),
           (''T1'', \<lparr>content = ''{}'', stages = [''AWSPENDING'']\<rparr>)], ()),
       SecretObj = ''P0+'',
       trace =
         [GetSecretValue_call
            \<lparr>gsv_SecretId = ''arn:secret'', gsv_VersionStage = Some ''AWSCURRENT'',
             gsv_VersionId = None\<rparr>,
          GetSecretValue_call
            \<lparr>gsv_SecretId = ''arn:secret'', gsv_VersionStage = Some ''AWSPENDING'',
             gsv_VersionId = Some ''T1''\<rparr>,
          GenerateSecret_call,
          PutSecretValue_call
            \<lparr>psv_SecretId = ''arn:secret'', psv_ClientRequestToken = ''T1'',
             psv_SecretString = ''{}'', psv_VersionStages = [''AWSPENDING'']\<rparr>]\<rparr>)"
  by (simp add: createSecret_def do_GetSecretValue_def do_PutSecretValue_def
      do_GenerateSecret_def hidden_Config_def hidden_world_def hidden_generate_def
      store_Config_def request_def store_U_def store_GetSecretValue_def readByStage_def
      readByVersion_def extractSecretObject_def serialiseSecret_def unexported_json_def
      store_PutSecretValue_def writePending_def of_error_def)

end
